theory Spec2Isabelle
  imports Main "HOL-Library.Sublist" "HOL-Library.Word"
begin

unbundle bit_operations_syntax

section \<open>Python values\<close>

text \<open>
  The program is \<^verbatim>\<open>ubuntu_image_fetcher.py\<close>. A Python \<^verbatim>\<open>str\<close> is modelled by
  \<^typ>\<open>string\<close>, a list of 8-bit characters read as the code points U+0000 to U+00FF
  (the range of the header values that \<^verbatim>\<open>requests\<close> hands out, which it decodes as
  Latin-1). A \<^verbatim>\<open>bytes\<close> object is a list of 8-bit characters as well. Strings with
  code points above U+00FF are outside the model.
\<close>

type_synonym bytes = "char list"

text \<open>
  The exceptions the program can meet. The first five are the classes of
  \<^verbatim>\<open>requests.exceptions\<close> that the handlers of \<^verbatim>\<open>download_image\<close> tell apart:
  \<^verbatim>\<open>ConnectTimeout\<close> inherits from both \<^verbatim>\<open>ConnectionError\<close> and \<^verbatim>\<open>Timeout\<close>,
  \<^verbatim>\<open>ReadTimeout\<close> from \<^verbatim>\<open>Timeout\<close>, and all of them from \<^verbatim>\<open>RequestException\<close>.
  An \<^verbatim>\<open>HTTPError\<close> carries the status code of its response and its message; the other
  constructors carry the text that \<^verbatim>\<open>str(e)\<close> returns. \<^verbatim>\<open>OSError\<close> (of which
  \<^verbatim>\<open>IOError\<close> is another name) stands for its subclasses too.
\<close>

datatype exn =
    ConnectTimeout string
  | ReadTimeout string
  | HTTPError nat string
  | ConnectionError string
  | RequestException string
  | ValueError string
  | IndexError string
  | OSError string

fun exn_str :: "exn \<Rightarrow> string" where
  "exn_str (ConnectTimeout m) = m"
| "exn_str (ReadTimeout m) = m"
| "exn_str (HTTPError st m) = m"
| "exn_str (ConnectionError m) = m"
| "exn_str (RequestException m) = m"
| "exn_str (ValueError m) = m"
| "exn_str (IndexError m) = m"
| "exn_str (OSError m) = m"

subsection \<open>String methods\<close>

text \<open>\<^verbatim>\<open>sub in s\<close> for strings: \<^verbatim>\<open>sub\<close> occurs in \<^verbatim>\<open>s\<close> as a contiguous run.\<close>

definition py_in :: "string \<Rightarrow> string \<Rightarrow> bool" where
  "py_in sub s = sublist sub s"

text \<open>\<^verbatim>\<open>s.startswith(p)\<close>.\<close>

definition startswith :: "string \<Rightarrow> string \<Rightarrow> bool" where
  "startswith s p = prefix p s"

text \<open>\<^verbatim>\<open>s.lstrip(cs)\<close>, \<^verbatim>\<open>s.rstrip(cs)\<close> and \<^verbatim>\<open>s.strip(cs)\<close>: drop the characters of
  \<^verbatim>\<open>cs\<close> from the left end, the right end, both ends.\<close>

definition py_lstrip :: "string \<Rightarrow> string \<Rightarrow> string" where
  "py_lstrip cs s = dropWhile (\<lambda>c. c \<in> set cs) s"

definition py_rstrip :: "string \<Rightarrow> string \<Rightarrow> string" where
  "py_rstrip cs s = rev (dropWhile (\<lambda>c. c \<in> set cs) (rev s))"

definition py_strip :: "string \<Rightarrow> string \<Rightarrow> string" where
  "py_strip cs s = py_rstrip cs (py_lstrip cs s)"

text \<open>
  \<^verbatim>\<open>s.split(sep)\<close> for a non-empty separator: the pieces of \<^verbatim>\<open>s\<close> between the
  occurrences of \<^verbatim>\<open>sep\<close>, found from the left and not overlapping. \<open>split_from\<close> carries
  the piece read so far, reversed. (Python raises \<^verbatim>\<open>ValueError\<close> for an empty separator;
  the program only splits at the literals \<^verbatim>\<open>'filename='\<close> and \<^verbatim>\<open>'/'\<close>, and the model
  returns the whole string as one piece there.)
\<close>

function split_from :: "string \<Rightarrow> string \<Rightarrow> string \<Rightarrow> string list" where
  "split_from sep acc [] = [rev acc]"
| "split_from sep acc (c # cs) =
     (if sep \<noteq> [] \<and> prefix sep (c # cs)
      then rev acc # split_from sep [] (drop (length sep) (c # cs))
      else split_from sep (c # acc) cs)"
  by pat_completeness auto
termination
  by (relation "measure (\<lambda>(sep, acc, s). length s)") (auto simp: neq_Nil_conv)

definition py_split :: "string \<Rightarrow> string \<Rightarrow> string list" where
  "py_split s sep = split_from sep [] s"

text \<open>\<^verbatim>\<open>s.split(c, 1)\<close> for a character \<^verbatim>\<open>c\<close> that occurs in \<^verbatim>\<open>s\<close>: the text before
  the first \<^verbatim>\<open>c\<close> and the text after it; \<^verbatim>\<open>s.partition(c)\<close> gives the same two texts
  (and two empty ones after \<^verbatim>\<open>s\<close> when \<^verbatim>\<open>c\<close> does not occur, as here).\<close>

definition split_once :: "char \<Rightarrow> string \<Rightarrow> string \<times> string" where
  "split_once c s = (takeWhile (\<lambda>x. x \<noteq> c) s, drop 1 (dropWhile (\<lambda>x. x \<noteq> c) s))"

text \<open>\<^verbatim>\<open>s.lower()\<close> on the ASCII letters. (Python also lowers the Latin-1 capitals
  U+00C0 to U+00DE; they never occur in a scheme, and the header names the program looks
  up are ASCII, so that no stored name with such a letter matches either way.)\<close>

definition lower_char :: "char \<Rightarrow> char" where
  "lower_char c =
     (case map_of (zip ''ABCDEFGHIJKLMNOPQRSTUVWXYZ'' ''abcdefghijklmnopqrstuvwxyz'') c of
        Some l \<Rightarrow> l
      | None \<Rightarrow> c)"

definition py_lower :: "string \<Rightarrow> string" where
  "py_lower s = map lower_char s"

text \<open>\<^verbatim>\<open>str(n)\<close> for a non-negative integer.\<close>

definition digit_char :: "nat \<Rightarrow> char" where
  "digit_char d = ''0123456789'' ! d"

function str_nat :: "nat \<Rightarrow> string" where
  "str_nat n = (if n < 10 then [digit_char n] else str_nat (n div 10) @ [digit_char (n mod 10)])"
  by pat_completeness auto
termination
  by (relation "measure id") auto

declare str_nat.simps [simp del]

section \<open>\<^verbatim>\<open>urllib.parse.urlparse\<close>\<close>

text \<open>
  The program reads two fields of \<^verbatim>\<open>urlparse(url)\<close>: \<^verbatim>\<open>path\<close> in the filename
  resolver and \<^verbatim>\<open>netloc\<close> in the progress message. The model follows
  \<^verbatim>\<open>urlsplit\<close> and \<^verbatim>\<open>urlparse\<close> of CPython 3.11 step by step, with their one way to
  fail: a \<^verbatim>\<open>ValueError\<close> for brackets in the network location that do not enclose an
  IPv6 or IPvFuture literal.
\<close>

record parse_result =
  scheme :: string
  netloc :: string
  path :: string
  params :: string
  query :: string
  fragment :: string

subsection \<open>\<^verbatim>\<open>ipaddress\<close>: the literal between the brackets\<close>

definition is_ascii_digits :: "string \<Rightarrow> bool" where
  "is_ascii_digits s = (s \<noteq> [] \<and> list_all (\<lambda>c. c \<in> set ''0123456789'') s)"

text \<open>The value of a string of decimal digits.\<close>

definition digits_value :: "string \<Rightarrow> nat" where
  "digits_value s = foldl (\<lambda>n c. 10 * n + (of_char c - 48)) 0 s"

text \<open>\<^verbatim>\<open>IPv4Address._parse_octet\<close> accepts one to three ASCII digits with no leading zero
  and a value of at most 255.\<close>

definition octet_ok :: "string \<Rightarrow> bool" where
  "octet_ok s =
     (is_ascii_digits s \<and> length s \<le> 3 \<and> \<not> (s \<noteq> ''0'' \<and> hd s = CHR ''0'')
      \<and> digits_value s \<le> 255)"

text \<open>\<^verbatim>\<open>IPv4Address(s)\<close> succeeds: no \<^verbatim>\<open>/\<close>, four octets between dots.\<close>

definition ipv4_ok :: "string \<Rightarrow> bool" where
  "ipv4_ok s =
     (CHR ''/'' \<notin> set s \<and> s \<noteq> [] \<and> length (py_split s ''.'') = 4
      \<and> list_all octet_ok (py_split s ''.''))"

text \<open>\<^verbatim>\<open>IPv6Address._parse_hextet\<close> accepts one to four hexadecimal digits.\<close>

definition hextet_ok :: "string \<Rightarrow> bool" where
  "hextet_ok s =
     (list_all (\<lambda>c. c \<in> set ''0123456789ABCDEFabcdef'') s \<and> length s \<le> 4 \<and> s \<noteq> [])"

text \<open>
  \<^verbatim>\<open>IPv6Address._ip_int_from_string\<close> succeeds. A dotted last part must be an IPv4
  address and counts for two parts (both valid hextets, written \<^verbatim>\<open>0\<close> here). The empty
  parts strictly inside the list mark the \<^verbatim>\<open>::\<close>; there is at most one.
\<close>

definition ipv6_parts_ok :: "string list \<Rightarrow> bool" where
  "ipv6_parts_ok parts =
     (let n = length parts;
          skips = filter (\<lambda>i. parts ! i = []) [1 ..< n - 1]
      in if n > 9 \<or> length skips > 1 then False
         else if skips \<noteq> [] then
           (let skip_index = hd skips;
                hi0 = skip_index;
                lo0 = n - skip_index - 1;
                hi = (if hd parts = [] then hi0 - 1 else hi0);
                lo = (if last parts = [] then lo0 - 1 else lo0)
            in \<not> (hd parts = [] \<and> hi \<noteq> 0) \<and> \<not> (last parts = [] \<and> lo \<noteq> 0)
               \<and> hi + lo < 8
               \<and> list_all hextet_ok (take hi parts) \<and> list_all hextet_ok (drop (n - lo) parts))
         else n = 8 \<and> hd parts \<noteq> [] \<and> last parts \<noteq> [] \<and> list_all hextet_ok parts)"

definition ipv6_string_ok :: "string \<Rightarrow> bool" where
  "ipv6_string_ok s =
     (let parts = py_split s '':''
      in s \<noteq> [] \<and> length parts \<ge> 3
         \<and> (if CHR ''.'' \<in> set (last parts)
             then ipv4_ok (last parts) \<and> ipv6_parts_ok (butlast parts @ [''0'', ''0''])
             else ipv6_parts_ok parts))"

text \<open>\<^verbatim>\<open>IPv6Address(s)\<close> succeeds: no \<^verbatim>\<open>/\<close>, an optional scope id after the first
  \<^verbatim>\<open>%\<close> (not empty, with no second \<^verbatim>\<open>%\<close>), and a valid address before it.\<close>

definition ipv6_ok :: "string \<Rightarrow> bool" where
  "ipv6_ok s =
     (let addr = fst (split_once CHR ''%'' s); scope_id = snd (split_once CHR ''%'' s)
      in CHR ''/'' \<notin> set s
         \<and> (if CHR ''%'' \<in> set s then scope_id \<noteq> [] \<and> CHR ''%'' \<notin> set scope_id else True)
         \<and> ipv6_string_ok addr)"

text \<open>
  \<^verbatim>\<open>_check_bracketed_host\<close> returns without raising: a host that starts with \<^verbatim>\<open>v\<close>
  has to match \<^verbatim>\<open>v[a-fA-F0-9]+\..+\<close>; any other host has to be accepted by
  \<^verbatim>\<open>ipaddress.ip_address\<close> (which tries \<^verbatim>\<open>IPv4Address\<close> first) as an IPv6 address.
\<close>

definition ipvfuture_ok :: "string \<Rightarrow> bool" where
  "ipvfuture_ok h =
     (let hex = takeWhile (\<lambda>c. c \<in> set ''0123456789ABCDEFabcdef'') (drop 1 h);
          rest = dropWhile (\<lambda>c. c \<in> set ''0123456789ABCDEFabcdef'') (drop 1 h)
      in hex \<noteq> [] \<and> startswith rest ''.'' \<and> drop 1 rest \<noteq> [])"

definition check_bracketed_host :: "string \<Rightarrow> bool" where
  "check_bracketed_host h =
     (if startswith h ''v'' then ipvfuture_ok h else \<not> ipv4_ok h \<and> ipv6_ok h)"

subsection \<open>\<^verbatim>\<open>urlsplit\<close> and \<^verbatim>\<open>urlparse\<close>\<close>

definition scheme_chars :: string where
  "scheme_chars = ''abcdefghijklmnopqrstuvwxyzABCDEFGHIJKLMNOPQRSTUVWXYZ0123456789+-.''"

definition ascii_alpha :: "char \<Rightarrow> bool" where
  "ascii_alpha c = (c \<in> set ''abcdefghijklmnopqrstuvwxyzABCDEFGHIJKLMNOPQRSTUVWXYZ'')"

definition uses_params :: "string list" where
  "uses_params = ['''', ''ftp'', ''hdl'', ''prospero'', ''http'', ''imap'', ''https'', ''shttp'',
     ''rtsp'', ''rtsps'', ''rtspu'', ''sip'', ''sips'', ''mms'', ''sftp'', ''tel'']"

text \<open>The leading characters up to U+0020 are stripped, then every tab, carriage return
  and line feed is removed.\<close>

definition clean_url :: "string \<Rightarrow> string" where
  "clean_url url =
     filter (\<lambda>c. c \<notin> {CHR 0x09, CHR 0x0D, CHR 0x0A})
       (dropWhile (\<lambda>c. (of_char c :: nat) \<le> 32) url)"

text \<open>The scheme is the text before the first \<^verbatim>\<open>:\<close> when that text is not empty, starts
  with an ASCII letter and consists of scheme characters; the pair is the scheme, in lower
  case, and the rest of the URL.\<close>

definition split_scheme :: "string \<Rightarrow> string \<times> string" where
  "split_scheme url =
     (let pre = takeWhile (\<lambda>c. c \<noteq> CHR '':'') url
      in if CHR '':'' \<in> set url \<and> pre \<noteq> [] \<and> ascii_alpha (hd url)
            \<and> list_all (\<lambda>c. c \<in> set scheme_chars) pre
         then (py_lower pre, drop (length pre + 1) url)
         else ('''', url))"

text \<open>\<^verbatim>\<open>_splitnetloc(url, 2)\<close>: the network location runs from index 2 to the first of
  \<^verbatim>\<open>/\<close>, \<^verbatim>\<open>?\<close>, \<^verbatim>\<open>#\<close>, or to the end.\<close>

definition splitnetloc :: "string \<Rightarrow> string \<times> string" where
  "splitnetloc url =
     (takeWhile (\<lambda>c. c \<notin> set ''/?#'') (drop 2 url),
      dropWhile (\<lambda>c. c \<notin> set ''/?#'') (drop 2 url))"

text \<open>
  \<^verbatim>\<open>urlsplit(url)\<close>. \<^verbatim>\<open>_checknetloc\<close> is not modelled as a step: it raises only when
  the NFKC form of a non-ASCII network location has one of \<^verbatim>\<open>/?#@:\<close> that the location
  has not, and no code point up to U+00FF normalises to a text with one of them.
\<close>

definition urlsplit :: "string \<Rightarrow> exn + parse_result" where
  "urlsplit url0 =
     (let sch = fst (split_scheme (clean_url url0));
          url1 = snd (split_scheme (clean_url url0));
          nl = (if take 2 url1 = ''//'' then fst (splitnetloc url1) else '''');
          url2 = (if take 2 url1 = ''//'' then snd (splitnetloc url1) else url1);
          frag = (if CHR ''#'' \<in> set url2 then snd (split_once CHR ''#'' url2) else '''');
          url3 = (if CHR ''#'' \<in> set url2 then fst (split_once CHR ''#'' url2) else url2);
          qry = (if CHR ''?'' \<in> set url3 then snd (split_once CHR ''?'' url3) else '''');
          url4 = (if CHR ''?'' \<in> set url3 then fst (split_once CHR ''?'' url3) else url3)
      in if (CHR ''['' \<in> set nl \<and> CHR '']'' \<notin> set nl) \<or> (CHR '']'' \<in> set nl \<and> CHR ''['' \<notin> set nl)
         then Inl (ValueError ''Invalid IPv6 URL'')
         else if CHR ''['' \<in> set nl \<and> CHR '']'' \<in> set nl
                 \<and> \<not> check_bracketed_host
                       (fst (split_once CHR '']'' (snd (split_once CHR ''['' nl))))
         then Inl (ValueError ''invalid bracketed host'')
         else Inr \<lparr>scheme = sch, netloc = nl, path = url4, params = '''',
                   query = qry, fragment = frag\<rparr>)"

text \<open>\<^verbatim>\<open>_splitparams\<close>: the parameters start at the first \<^verbatim>\<open>;\<close> of the last path
  segment.\<close>

definition last_segment :: "string \<Rightarrow> string" where
  "last_segment p = rev (takeWhile (\<lambda>c. c \<noteq> CHR ''/'') (rev p))"

definition splitparams :: "string \<Rightarrow> string \<times> string" where
  "splitparams url =
     (let seg = last_segment url; front = take (length url - length seg) url
      in if CHR '';'' \<in> set seg
         then (front @ fst (split_once CHR '';'' seg), snd (split_once CHR '';'' seg))
         else (url, ''''))"

definition urlparse :: "string \<Rightarrow> exn + parse_result" where
  "urlparse url =
     (case urlsplit url of
        Inl e \<Rightarrow> Inl e
      | Inr r \<Rightarrow>
          if scheme r \<in> set uses_params \<and> CHR '';'' \<in> set (path r)
          then Inr (r\<lparr>path := fst (splitparams (path r)), params := snd (splitparams (path r))\<rparr>)
          else Inr r)"

section \<open>\<^verbatim>\<open>hashlib.md5\<close>\<close>

text \<open>
  The MD5 digest of RFC 1321 on 32-bit words: the message is padded with \<^verbatim>\<open>0x80\<close>, zeros
  and its length in bits (64 bits, little-endian) to a multiple of 64 bytes, and every block
  of sixteen words goes through 64 steps.
\<close>

definition md5_K :: "32 word list" where
  "md5_K =
    [0xd76aa478, 0xe8c7b756, 0x242070db, 0xc1bdceee, 0xf57c0faf, 0x4787c62a, 0xa8304613, 0xfd469501,
     0x698098d8, 0x8b44f7af, 0xffff5bb1, 0x895cd7be, 0x6b901122, 0xfd987193, 0xa679438e, 0x49b40821,
     0xf61e2562, 0xc040b340, 0x265e5a51, 0xe9b6c7aa, 0xd62f105d, 0x02441453, 0xd8a1e681, 0xe7d3fbc8,
     0x21e1cde6, 0xc33707d6, 0xf4d50d87, 0x455a14ed, 0xa9e3e905, 0xfcefa3f8, 0x676f02d9, 0x8d2a4c8a,
     0xfffa3942, 0x8771f681, 0x6d9d6122, 0xfde5380c, 0xa4beea44, 0x4bdecfa9, 0xf6bb4b60, 0xbebfbc70,
     0x289b7ec6, 0xeaa127fa, 0xd4ef3085, 0x04881d05, 0xd9d4d039, 0xe6db99e5, 0x1fa27cf8, 0xc4ac5665,
     0xf4292244, 0x432aff97, 0xab9423a7, 0xfc93a039, 0x655b59c3, 0x8f0ccc92, 0xffeff47d, 0x85845dd1,
     0x6fa87e4f, 0xfe2ce6e0, 0xa3014314, 0x4e0811a1, 0xf7537e82, 0xbd3af235, 0x2ad7d2bb, 0xeb86d391]"

definition md5_shifts :: "nat list" where
  "md5_shifts =
    [7, 12, 17, 22, 7, 12, 17, 22, 7, 12, 17, 22, 7, 12, 17, 22,
     5, 9, 14, 20, 5, 9, 14, 20, 5, 9, 14, 20, 5, 9, 14, 20,
     4, 11, 16, 23, 4, 11, 16, 23, 4, 11, 16, 23, 4, 11, 16, 23,
     6, 10, 15, 21, 6, 10, 15, 21, 6, 10, 15, 21, 6, 10, 15, 21]"

definition rotl32 :: "32 word \<Rightarrow> nat \<Rightarrow> 32 word" where
  "rotl32 x n = push_bit n x OR drop_bit (32 - n) x"

definition md5_pad :: "bytes \<Rightarrow> bytes" where
  "md5_pad msg =
     msg @ [CHR 0x80] @ replicate ((119 - length msg mod 64) mod 64) (CHR 0x00)
     @ map (\<lambda>k. char_of (8 * length msg div 2 ^ (8 * k))) [0 ..< 8]"

text \<open>Four bytes, the least significant first, make a word.\<close>

definition le_word :: "bytes \<Rightarrow> 32 word" where
  "le_word bs = foldr (\<lambda>b w. of_char b + push_bit 8 w) bs 0"

definition md5_words :: "bytes \<Rightarrow> 32 word list" where
  "md5_words bs = map (\<lambda>k. le_word (take 4 (drop (4 * k) bs))) [0 ..< length bs div 4]"

fun md5_step :: "32 word list \<Rightarrow> 32 word \<times> 32 word \<times> 32 word \<times> 32 word \<Rightarrow> nat
    \<Rightarrow> 32 word \<times> 32 word \<times> 32 word \<times> 32 word" where
  "md5_step m (a, b, c, d) i =
     (let f = (if i < 16 then (b AND c) OR (NOT b AND d)
               else if i < 32 then (d AND b) OR (NOT d AND c)
               else if i < 48 then b XOR c XOR d
               else c XOR (b OR NOT d));
          g = (if i < 16 then i
               else if i < 32 then (5 * i + 1) mod 16
               else if i < 48 then (3 * i + 5) mod 16
               else (7 * i) mod 16)
      in (d, b + rotl32 (f + a + md5_K ! i + m ! g) (md5_shifts ! i), b, c))"

fun md5_block :: "32 word \<times> 32 word \<times> 32 word \<times> 32 word \<Rightarrow> 32 word list
    \<Rightarrow> 32 word \<times> 32 word \<times> 32 word \<times> 32 word" where
  "md5_block (a0, b0, c0, d0) m =
     (case foldl (md5_step m) (a0, b0, c0, d0) [0 ..< 64] of
        (a, b, c, d) \<Rightarrow> (a0 + a, b0 + b, c0 + c, d0 + d))"

definition md5_state :: "bytes \<Rightarrow> 32 word \<times> 32 word \<times> 32 word \<times> 32 word" where
  "md5_state msg =
     (let ws = md5_words (md5_pad msg)
      in foldl md5_block (0x67452301, 0xefcdab89, 0x98badcfe, 0x10325476)
           (map (\<lambda>k. take 16 (drop (16 * k) ws)) [0 ..< length ws div 16]))"

definition hex_digit :: "nat \<Rightarrow> char" where
  "hex_digit n = ''0123456789abcdef'' ! n"

text \<open>The eight hexadecimal digits of a word, byte by byte from the least significant.\<close>

definition hex_le :: "32 word \<Rightarrow> string" where
  "hex_le w =
     concat (map (\<lambda>k. [hex_digit (unat (drop_bit (8 * k + 4) w AND 0xF)),
                        hex_digit (unat (drop_bit (8 * k) w AND 0xF))]) [0 ..< 4])"

text \<open>\<^verbatim>\<open>hashlib.md5(data).hexdigest()\<close>.\<close>

definition md5_hexdigest :: "bytes \<Rightarrow> string" where
  "md5_hexdigest msg =
     (case md5_state msg of (a, b, c, d) \<Rightarrow> hex_le a @ hex_le b @ hex_le c @ hex_le d)"

text \<open>\<^verbatim>\<open>s.encode()\<close>: the UTF-8 bytes of a string of code points up to U+00FF.\<close>

definition encode :: "string \<Rightarrow> bytes" where
  "encode s =
     concat (map (\<lambda>c. if (of_char c :: nat) < 128 then [c]
                       else [char_of (192 + (of_char c :: nat) div 64),
                             char_of (128 + (of_char c :: nat) mod 64)]) s)"

section \<open>Other library functions\<close>

subsection \<open>Indexing, \<^verbatim>\<open>repr\<close> and \<^verbatim>\<open>int\<close>\<close>

text \<open>\<^verbatim>\<open>xs[i]\<close> for an index from the left: an \<^verbatim>\<open>IndexError\<close> beyond the end.\<close>

definition py_index :: "'a list \<Rightarrow> nat \<Rightarrow> exn + 'a" where
  "py_index xs i =
     (if i < length xs then Inr (xs ! i) else Inl (IndexError ''list index out of range''))"

text \<open>\<^verbatim>\<open>repr(s)\<close>, as the messages of \<^verbatim>\<open>ValueError\<close> and \<^verbatim>\<open>OSError\<close> quote a string:
  in single quotes, or in double quotes when the string has a single quote and no double
  one; backslash, the quote and the characters that do not print are escaped.\<close>

definition printable :: "char \<Rightarrow> bool" where
  "printable c =
     (let n = (of_char c :: nat) in (32 \<le> n \<and> n < 127) \<or> (161 \<le> n \<and> n \<noteq> 173))"

definition repr_char :: "char \<Rightarrow> char \<Rightarrow> string" where
  "repr_char q c =
     (if c = q \<or> c = CHR 0x5C then [CHR 0x5C, c]
      else if c = CHR 0x0A then [CHR 0x5C, CHR ''n'']
      else if c = CHR 0x0D then [CHR 0x5C, CHR ''r'']
      else if c = CHR 0x09 then [CHR 0x5C, CHR ''t'']
      else if printable c then [c]
      else [CHR 0x5C, CHR ''x'', ''0123456789abcdef'' ! (of_char c div 16),
            ''0123456789abcdef'' ! (of_char c mod 16)])"

definition py_repr :: "string \<Rightarrow> string" where
  "py_repr s =
     (let q = (if CHR 0x27 \<in> set s \<and> CHR 0x22 \<notin> set s then CHR 0x22 else CHR 0x27)
      in [q] @ concat (map (repr_char q) s) @ [q])"

text \<open>
  \<^verbatim>\<open>int(s)\<close> for a string, in base 10. White space at both ends is skipped (in a string
  with a code point above U+007F the spaces U+0085 and U+00A0 count as well), then comes an
  optional sign and a run of ASCII digits, with single underscores allowed between digits.
  More than 4300 digits are refused. Every failure is a \<^verbatim>\<open>ValueError\<close>.
\<close>

definition int_text :: "string \<Rightarrow> string" where
  "int_text s =
     (if list_all (\<lambda>c. (of_char c :: nat) < 128) s then s
      else map (\<lambda>c. if c = CHR 0x85 \<or> c = CHR 0xA0 then CHR 0x20 else c) s)"

definition c_whitespace :: string where
  "c_whitespace = [CHR 0x20, CHR 0x09, CHR 0x0A, CHR 0x0B, CHR 0x0C, CHR 0x0D]"

definition py_int :: "string \<Rightarrow> exn + int" where
  "py_int s =
     (let t = py_strip c_whitespace (int_text s);
          body = (if startswith t ''-'' \<or> startswith t ''+'' then drop 1 t else t);
          run = takeWhile (\<lambda>c. c \<in> set ''0123456789_'') body;
          rest = dropWhile (\<lambda>c. c \<in> set ''0123456789_'') body;
          digits = filter (\<lambda>c. c \<noteq> CHR ''_'') run;
          invalid = ValueError (''invalid literal for int() with base 10: '' @ py_repr s)
      in if run = [] \<or> hd run = CHR ''_'' \<or> last run = CHR ''_'' \<or> py_in ''__'' run
         then Inl invalid
         else if length digits > 4300
         then Inl (ValueError (''Exceeds the limit (4300 digits) for integer string conversion: ''
                @ ''value has '' @ str_nat (length digits)
                @ '' digits; use sys.set_int_max_str_digits() to increase the limit''))
         else if rest \<noteq> [] then Inl invalid
         else Inr (if startswith t ''-'' then - int (digits_value digits)
                   else int (digits_value digits)))"

subsection \<open>\<^verbatim>\<open>os.path\<close> on POSIX\<close>

text \<open>\<^verbatim>\<open>os.path.basename(p)\<close>: the text after the last \<^verbatim>\<open>/\<close>.\<close>

definition basename :: "string \<Rightarrow> string" where
  "basename p = last_segment p"

text \<open>\<^verbatim>\<open>os.path.dirname(p)\<close>: the text up to the last \<^verbatim>\<open>/\<close>, without its trailing
  slashes unless it consists of slashes.\<close>

definition dirname :: "string \<Rightarrow> string" where
  "dirname p =
     (let head = take (length p - length (last_segment p)) p
      in if head \<noteq> [] \<and> head \<noteq> replicate (length head) (CHR ''/'')
         then py_rstrip ''/'' head else head)"

text \<open>\<^verbatim>\<open>os.path.join(a, b)\<close>.\<close>

definition path_join :: "string \<Rightarrow> string \<Rightarrow> string" where
  "path_join a b =
     (if startswith b ''/'' then b
      else if a = [] \<or> last a = CHR ''/'' then a @ b
      else a @ ''/'' @ b)"

section \<open>The world: files, the network, the terminal\<close>

text \<open>
  The file system maps a path, as the program spells it, to a node: a directory, or a
  regular file with its bytes and whether this process may read and write it. Two spellings
  of one path are two keys, and \<^verbatim>\<open>os.makedirs\<close> records only the directory it is asked
  for. The trace lists the calls that reach outside the process, the latest last.
\<close>

datatype node = Directory | File (data: bytes) (readable: bool) (writable: bool)

datatype event =
    Makedirs string
  | Print string
  | Get string
  | OpenRead string
  | OpenWrite string

record world =
  files :: "string \<Rightarrow> node option"
  trace :: "event list"

definition emit :: "event \<Rightarrow> world \<Rightarrow> world" where
  "emit ev w = w\<lparr>trace := trace w @ [ev]\<rparr>"

definition os_error :: "nat \<Rightarrow> string \<Rightarrow> string \<Rightarrow> exn" where
  "os_error errno strerror p =
     OSError (''[Errno '' @ str_nat errno @ ''] '' @ strerror @ '': '' @ py_repr p)"

text \<open>\<^verbatim>\<open>os.makedirs(d, exist_ok=True)\<close>: nothing to do for a directory; a regular file in
  the way and the empty path are errors; otherwise the directory is created.\<close>

definition os_makedirs :: "string \<Rightarrow> world \<Rightarrow> (exn + unit) \<times> world" where
  "os_makedirs d w =
     (let w' = emit (Makedirs d) w
      in case files w d of
           Some Directory \<Rightarrow> (Inr (), w')
         | Some (File _ _ _) \<Rightarrow> (Inl (os_error 17 ''File exists'' d), w')
         | None \<Rightarrow>
             if d = [] then (Inl (os_error 2 ''No such file or directory'' d), w')
             else (Inr (), w'\<lparr>files := (files w')(d \<mapsto> Directory)\<rparr>))"

text \<open>\<^verbatim>\<open>os.path.exists(p)\<close>.\<close>

definition os_path_exists :: "string \<Rightarrow> world \<Rightarrow> bool" where
  "os_path_exists p w = (files w p \<noteq> None)"

text \<open>\<^verbatim>\<open>open(p, 'rb')\<close> followed by \<^verbatim>\<open>f.read()\<close>.\<close>

definition read_file :: "string \<Rightarrow> world \<Rightarrow> (exn + bytes) \<times> world" where
  "read_file p w =
     (let w' = emit (OpenRead p) w
      in case files w p of
           None \<Rightarrow> (Inl (os_error 2 ''No such file or directory'' p), w')
         | Some Directory \<Rightarrow> (Inl (os_error 21 ''Is a directory'' p), w')
         | Some (File d r _) \<Rightarrow>
             if r then (Inr d, w') else (Inl (os_error 13 ''Permission denied'' p), w'))"

text \<open>\<^verbatim>\<open>open(p, 'wb')\<close> followed by \<^verbatim>\<open>f.write(d)\<close>: an existing file keeps its
  permissions and gets the new bytes; a new file needs its directory.\<close>

definition write_file :: "string \<Rightarrow> bytes \<Rightarrow> world \<Rightarrow> (exn + unit) \<times> world" where
  "write_file p d w =
     (let w' = emit (OpenWrite p) w
      in case files w p of
           Some Directory \<Rightarrow> (Inl (os_error 21 ''Is a directory'' p), w')
         | Some (File _ r wr) \<Rightarrow>
             if wr then (Inr (), w'\<lparr>files := (files w')(p \<mapsto> File d r wr)\<rparr>)
             else (Inl (os_error 13 ''Permission denied'' p), w')
         | None \<Rightarrow>
             (case files w (dirname p) of
                Some Directory \<Rightarrow> (Inr (), w'\<lparr>files := (files w')(p \<mapsto> File d True True)\<rparr>)
              | Some (File _ _ _) \<Rightarrow> (Inl (os_error 20 ''Not a directory'' p), w')
              | None \<Rightarrow> (Inl (os_error 2 ''No such file or directory'' p), w')))"

text \<open>\<^verbatim>\<open>print(s)\<close>; writing to the terminal is taken to succeed.\<close>

definition print :: "string \<Rightarrow> world \<Rightarrow> world" where
  "print s w = emit (Print s) w"

subsection \<open>\<^verbatim>\<open>requests\<close>\<close>

text \<open>
  A response as the program reads it. The header mapping of \<^verbatim>\<open>requests\<close> ignores the
  case of a name: \<open>headers_get\<close> is its \<^verbatim>\<open>get(name)\<close>, with \<open>None\<close> for a header that
  is not there, and \<open>headers_get_default\<close> its \<^verbatim>\<open>get(name, default)\<close>.
\<close>

record response =
  status_code :: nat
  reason :: string
  resp_url :: string
  headers :: "(string \<times> string) list"
  content :: bytes

definition headers_get :: "(string \<times> string) list \<Rightarrow> string \<Rightarrow> string option" where
  "headers_get hs name = map_of (map (\<lambda>(k, v). (py_lower k, v)) hs) (py_lower name)"

definition headers_get_default :: "(string \<times> string) list \<Rightarrow> string \<Rightarrow> string \<Rightarrow> string" where
  "headers_get_default hs name d = (case headers_get hs name of None \<Rightarrow> d | Some v \<Rightarrow> v)"

text \<open>\<^verbatim>\<open>response.raise_for_status()\<close> raises an \<^verbatim>\<open>HTTPError\<close> for the status codes
  400 to 599, and for no other.\<close>

definition raise_for_status :: "response \<Rightarrow> exn + unit" where
  "raise_for_status r =
     (if 400 \<le> status_code r \<and> status_code r < 500
      then Inl (HTTPError (status_code r)
             (str_nat (status_code r) @ '' Client Error: '' @ reason r @ '' for url: '' @ resp_url r))
      else if 500 \<le> status_code r \<and> status_code r < 600
      then Inl (HTTPError (status_code r)
             (str_nat (status_code r) @ '' Server Error: '' @ reason r @ '' for url: '' @ resp_url r))
      else Inr ())"

text \<open>
  \<^verbatim>\<open>requests.get(url, headers=headers, timeout=15)\<close>. What the network answers is a
  parameter of the model: a function from the URL to a response or to the exception that
  \<^verbatim>\<open>requests\<close> raises (the body is read before \<^verbatim>\<open>get\<close> returns).
\<close>

definition http_get :: "(string \<Rightarrow> exn + response) \<Rightarrow> string \<Rightarrow> world \<Rightarrow> (exn + response) \<times> world" where
  "http_get network url w = (network url, emit (Get url) w)"

section \<open>The program\<close>

subsection \<open>\<^verbatim>\<open>get_filename_from_url\<close>\<close>

text \<open>
  The function follows the source line by line. \<open>filename_candidate\<close> is the first half
  (lines 19 to 27), the value of the variable \<^verbatim>\<open>filename\<close> before the fallback: the last
  segment of the URL's path; if that is empty or has no dot and the \<^verbatim>\<open>Content-Disposition\<close>
  header has \<^verbatim>\<open>filename=\<close>, the second piece of the header split at \<^verbatim>\<open>filename=\<close>,
  without the quotes at its ends. \<open>get_filename_from_url\<close> adds the second half (lines 29
  to 44): if the name is still empty or has no dot, a name made of the first eight
  hexadecimal digits of the URL's MD5 digest and an extension taken from the
  \<^verbatim>\<open>Content-Type\<close> header. The function has no handler of its own: what \<^verbatim>\<open>urlparse\<close> or
  an index raises leaves it as \<open>Inl\<close>.
\<close>

definition quote_chars :: string where
  "quote_chars = [CHR 0x22, CHR 0x27]"

definition filename_candidate :: "string \<Rightarrow> response \<Rightarrow> exn + string" where
  "filename_candidate url response =
     (case urlparse url of
        Inl e \<Rightarrow> Inl e
      | Inr parsed_url \<Rightarrow>
          (let filename = basename (path parsed_url)
           in if filename = [] \<or> CHR ''.'' \<notin> set filename
              then
                (let content_disp =
                       headers_get_default (headers response) ''Content-Disposition'' ''''
                 in if py_in ''filename='' content_disp
                    then (case py_index (py_split content_disp ''filename='') 1 of
                            Inl e \<Rightarrow> Inl e
                          | Inr t \<Rightarrow> Inr (py_strip quote_chars t))
                    else Inr filename)
              else Inr filename))"

definition get_filename_from_url :: "string \<Rightarrow> response \<Rightarrow> exn + string" where
  "get_filename_from_url url response =
     (case filename_candidate url response of
        Inl e \<Rightarrow> Inl e
      | Inr filename \<Rightarrow>
          if filename = [] \<or> CHR ''.'' \<notin> set filename
          then
            (let url_hash = take 8 (md5_hexdigest (encode url));
                 content_type = headers_get_default (headers response) ''Content-Type'' ''''
             in if py_in ''image/'' content_type
                then (case py_index (py_split content_type ''/'') 1 of
                        Inl e \<Rightarrow> Inl e
                      | Inr ext \<Rightarrow>
                          Inr (''downloaded_image_'' @ url_hash @ ''.''
                               @ (if ext = ''jpeg'' then ''jpg'' else ext)))
                else Inr (''downloaded_image_'' @ url_hash @ ''.bin''))
          else Inr filename)"

subsection \<open>\<^verbatim>\<open>is_duplicate_image\<close>\<close>

text \<open>
  The \<^verbatim>\<open>except IOError\<close> clause catches an \<^verbatim>\<open>OSError\<close> of the read and answers
  \<^verbatim>\<open>False\<close>; any other exception would pass through.
\<close>

definition is_duplicate_image :: "string \<Rightarrow> bytes \<Rightarrow> world \<Rightarrow> (exn + bool) \<times> world" where
  "is_duplicate_image filepath new_content w =
     (if \<not> os_path_exists filepath w then (Inr False, w)
      else
        (let new_content_hash = md5_hexdigest new_content
         in case read_file filepath w of
              (Inr existing, w') \<Rightarrow> (Inr (new_content_hash = md5_hexdigest existing), w')
            | (Inl (OSError m), w') \<Rightarrow> (Inr False, w')
            | (Inl e, w') \<Rightarrow> (Inl e, w')))"

subsection \<open>\<^verbatim>\<open>download_image\<close>\<close>

text \<open>
  The two symbols that start the messages are beyond U+00FF; they are written as the three
  bytes of their UTF-8 form, as they reach the terminal.
\<close>

definition check_mark :: string where
  "check_mark = [CHR 0xE2, CHR 0x9C, CHR 0x93]"

definition ballot_x :: string where
  "ballot_x = [CHR 0xE2, CHR 0x9C, CHR 0x97]"

definition not_image_message :: "string \<Rightarrow> string" where
  "not_image_message content_type =
     ballot_x @ '' Respectful warning: The URL does not point to an image (Content-Type: ''
     @ content_type @ '').''"

definition too_large_message :: string where
  "too_large_message = ballot_x @ '' Respectful warning: File size exceeds 10MB limit.''"

definition already_exists_message :: "string \<Rightarrow> string" where
  "already_exists_message filename =
     check_mark @ '' Community resource preserved: '' @ [CHR 0x27] @ filename @ [CHR 0x27]
     @ '' already exists in our collection.''"

definition fetched_message :: "string \<Rightarrow> string \<Rightarrow> string" where
  "fetched_message filename filepath =
     check_mark @ '' Successfully fetched: '' @ filename @ [CHR 0x0A]
     @ check_mark @ '' Image saved to '' @ filepath"

definition timeout_message :: string where
  "timeout_message =
     ballot_x @ '' Connection timeout: The community member took too long to respond.''"

definition http_error_message :: "nat \<Rightarrow> string" where
  "http_error_message st =
     ballot_x @ '' HTTP error: The community server responded with '' @ str_nat st"

definition connection_error_message :: string where
  "connection_error_message =
     ballot_x @ '' Connection error: Could not reach the community member.''"

definition network_error_message :: "exn \<Rightarrow> string" where
  "network_error_message e = ballot_x @ '' Network error: '' @ exn_str e"

definition unexpected_error_message :: "exn \<Rightarrow> string" where
  "unexpected_error_message e = ballot_x @ '' An unexpected error occurred: '' @ exn_str e"

text \<open>The body of the \<^verbatim>\<open>try\<close> statement: a returned pair of message and flag, or the
  exception that ends it, and the world as it is then.\<close>

definition download_image_try ::
    "(string \<Rightarrow> exn + response) \<Rightarrow> string \<Rightarrow> string \<Rightarrow> world \<Rightarrow> (exn + string \<times> bool) \<times> world" where
  "download_image_try network url download_dir w0 =
     (case os_makedirs download_dir w0 of
        (Inl e, w1) \<Rightarrow> (Inl e, w1)
      | (Inr _, w1) \<Rightarrow>
     (case urlparse url of
        Inl e \<Rightarrow> (Inl e, w1)
      | Inr parsed \<Rightarrow>
     (case http_get network url
             (print (''Connecting to the community at '' @ netloc parsed @ ''...'') w1) of
        (Inl e, w2) \<Rightarrow> (Inl e, w2)
      | (Inr response, w2) \<Rightarrow>
     (case raise_for_status response of
        Inl e \<Rightarrow> (Inl e, w2)
      | Inr _ \<Rightarrow>
     (let content_type = headers_get_default (headers response) ''Content-Type'' ''''
      in if \<not> startswith content_type ''image/''
         then (Inr (not_image_message content_type, False), w2)
         else
     (case (case headers_get (headers response) ''Content-Length'' of
              None \<Rightarrow> Inr False
            | Some content_length \<Rightarrow>
                if content_length = [] then Inr False
                else (case py_int content_length of
                        Inl e \<Rightarrow> Inl e
                      | Inr n \<Rightarrow> Inr (n > 10 * 1024 * 1024))) of
        Inl e \<Rightarrow> (Inl e, w2)
      | Inr too_large \<Rightarrow>
         if too_large then (Inr (too_large_message, False), w2)
         else
     (case get_filename_from_url url response of
        Inl e \<Rightarrow> (Inl e, w2)
      | Inr filename \<Rightarrow>
     (let filepath = path_join download_dir filename
      in case is_duplicate_image filepath (content response) w2 of
           (Inl e, w3) \<Rightarrow> (Inl e, w3)
         | (Inr duplicate, w3) \<Rightarrow>
             if duplicate then (Inr (already_exists_message filename, True), w3)
             else
               (case write_file filepath (content response) w3 of
                  (Inl e, w4) \<Rightarrow> (Inl e, w4)
                | (Inr _, w4) \<Rightarrow> (Inr (fetched_message filename filepath, True), w4))))))))))"

text \<open>
  The \<^verbatim>\<open>except\<close> clauses, in the order of the source. \<open>isinstance\<close> follows the class
  hierarchy of \<^verbatim>\<open>requests.exceptions\<close>; every exception of the model is an
  \<^verbatim>\<open>Exception\<close>. An exception that no clause catches leaves the function.
\<close>

datatype exn_class = Timeout | HTTPError_class | ConnectionError_class
  | RequestException_class | Exception_class

fun isinstance :: "exn \<Rightarrow> exn_class \<Rightarrow> bool" where
  "isinstance e Exception_class = True"
| "isinstance (ConnectTimeout m) c = (c = Timeout \<or> c = ConnectionError_class \<or> c = RequestException_class)"
| "isinstance (ReadTimeout m) c = (c = Timeout \<or> c = RequestException_class)"
| "isinstance (HTTPError st m) c = (c = HTTPError_class \<or> c = RequestException_class)"
| "isinstance (ConnectionError m) c = (c = ConnectionError_class \<or> c = RequestException_class)"
| "isinstance (RequestException m) c = (c = RequestException_class)"
| "isinstance e c = False"

definition except_clauses :: "exn \<Rightarrow> exn + string \<times> bool" where
  "except_clauses e =
     (if isinstance e Timeout then Inr (timeout_message, False)
      else if isinstance e HTTPError_class
      then (case e of HTTPError st m \<Rightarrow> Inr (http_error_message st, False) | _ \<Rightarrow> Inl e)
      else if isinstance e ConnectionError_class then Inr (connection_error_message, False)
      else if isinstance e RequestException_class then Inr (network_error_message e, False)
      else if isinstance e Exception_class then Inr (unexpected_error_message e, False)
      else Inl e)"

definition download_image ::
    "(string \<Rightarrow> exn + response) \<Rightarrow> string \<Rightarrow> string \<Rightarrow> world \<Rightarrow> (exn + string \<times> bool) \<times> world" where
  "download_image network url download_dir w0 =
     (case download_image_try network url download_dir w0 of
        (Inr r, w) \<Rightarrow> (Inr r, w)
      | (Inl e, w) \<Rightarrow> (except_clauses e, w))"

section \<open>Worlds and servers for the examples\<close>

text \<open>A world with the given nodes and an empty trace; a server that answers every request
  with one response, one that fails every request with one exception; a response with a
  status code, headers and a body.\<close>

definition world_of :: "(string \<times> node) list \<Rightarrow> world" where
  "world_of nodes = \<lparr>files = map_of nodes, trace = []\<rparr>"

definition serve :: "response \<Rightarrow> string \<Rightarrow> exn + response" where
  "serve r url = Inr r"

definition refuse :: "exn \<Rightarrow> string \<Rightarrow> exn + response" where
  "refuse e url = Inl e"

definition reply :: "nat \<Rightarrow> (string \<times> string) list \<Rightarrow> bytes \<Rightarrow> response" where
  "reply st hs body =
     \<lparr>status_code = st, reason = '''', resp_url = '''', headers = hs, content = body\<rparr>"

section \<open>The duplicate detector\<close>

text \<open>
  Claim C7. For every path and byte content, \<^verbatim>\<open>is_duplicate_image\<close> answers
  \<^verbatim>\<open>False\<close> when no file exists at the path (and touches nothing); when the file exists
  and can be read it answers whether the MD5 digest of the new bytes equals the MD5 digest
  of the file's contents; when the node at the path cannot be read (a file without read
  permission, a directory) it answers \<^verbatim>\<open>False\<close>; and it never ends with an exception.
\<close>

theorem is_duplicate_image_contract:
  "(files w p = None \<longrightarrow> is_duplicate_image p c w = (Inr False, w))
   \<and> (files w p = Some (File d True wr) \<longrightarrow>
          fst (is_duplicate_image p c w) = Inr (md5_hexdigest c = md5_hexdigest d))
   \<and> (files w p = Some Directory \<or> files w p = Some (File d False wr) \<longrightarrow>
          fst (is_duplicate_image p c w) = Inr False)
   \<and> (\<exists>b. fst (is_duplicate_image p c w) = Inr b)"
  by (auto simp: is_duplicate_image_def os_path_exists_def read_file_def os_error_def Let_def
           split: option.splits node.splits)

theorem is_duplicate_image_contract_witness:
  "is_duplicate_image ''d/x.png'' ''B'' (world_of []) = (Inr False, world_of [])
   \<and> fst (is_duplicate_image ''d/x.png'' ''B''
            (world_of [(''d/x.png'', File ''B'' True True)])) = Inr True
   \<and> fst (is_duplicate_image ''d/x.png'' ''B''
            (world_of [(''d/x.png'', File ''B'' False True)])) = Inr False
   \<and> fst (is_duplicate_image ''d/x.png'' ''B'' (world_of [(''d/x.png'', Directory)])) = Inr False"
  using is_duplicate_image_contract [of "world_of []" "''d/x.png''" "''B''"]
        is_duplicate_image_contract
          [of "world_of [(''d/x.png'', File ''B'' True True)]" "''d/x.png''" "''B''" "''B''" True]
        is_duplicate_image_contract
          [of "world_of [(''d/x.png'', File ''B'' False True)]" "''d/x.png''" "''B''" "''B''" True]
        is_duplicate_image_contract [of "world_of [(''d/x.png'', Directory)]" "''d/x.png''" "''B''"]
  by (simp add: world_of_def)

section \<open>Facts used throughout\<close>

subsection \<open>The status check and the handlers\<close>

lemma raise_for_status_ok:
  "\<not> (400 \<le> status_code r \<and> status_code r < 600) \<Longrightarrow> raise_for_status r = Inr ()"
  by (auto simp: raise_for_status_def)

lemma raise_for_status_error:
  "400 \<le> status_code r \<Longrightarrow> status_code r < 600 \<Longrightarrow>
   \<exists>m. raise_for_status r = Inl (HTTPError (status_code r) m)"
  by (auto simp: raise_for_status_def)

text \<open>Every exception of the model is caught by one of the clauses, and the first clause
  that matches decides the message.\<close>

lemma except_clauses_cases:
  "except_clauses e =
     Inr (case e of
            ConnectTimeout m \<Rightarrow> timeout_message
          | ReadTimeout m \<Rightarrow> timeout_message
          | HTTPError st m \<Rightarrow> http_error_message st
          | ConnectionError m \<Rightarrow> connection_error_message
          | RequestException m \<Rightarrow> network_error_message e
          | ValueError m \<Rightarrow> unexpected_error_message e
          | IndexError m \<Rightarrow> unexpected_error_message e
          | OSError m \<Rightarrow> unexpected_error_message e, False)"
  by (cases e) (simp_all add: except_clauses_def)

lemma except_clauses_not_too_large: "except_clauses e \<noteq> Inr (too_large_message, b)"
  by (cases e)
     (simp_all add: except_clauses_def too_large_message_def timeout_message_def
        http_error_message_def connection_error_message_def network_error_message_def
        unexpected_error_message_def ballot_x_def)

lemma not_image_not_too_large: "not_image_message ct \<noteq> too_large_message"
  by (simp add: not_image_message_def too_large_message_def ballot_x_def)

lemma py_int_Nil: "py_int [] \<noteq> Inr n"
  by (simp add: py_int_def int_text_def py_strip_def py_lstrip_def py_rstrip_def startswith_def)

subsection \<open>Sample inputs\<close>

lemma urlparse_dotted: "urlparse ''http://a/b.png'' =
    Inr \<lparr>scheme = ''http'', netloc = ''a'', path = ''/b.png'', params = '''', query = '''',
         fragment = ''''\<rparr>"
  by code_simp

lemma urlparse_dotless: "urlparse ''http://a/g'' =
    Inr \<lparr>scheme = ''http'', netloc = ''a'', path = ''/g'', params = '''', query = '''',
         fragment = ''''\<rparr>"
  by code_simp

lemma urlparse_bracket: "urlparse ''http://['' = Inl (ValueError ''Invalid IPv6 URL'')"
  by code_simp

lemma makedirs_fresh:
  "map_of nodes ''Fetched_Images'' = None \<Longrightarrow>
   os_makedirs ''Fetched_Images'' (world_of nodes) =
     (Inr (), \<lparr>files = (map_of nodes)(''Fetched_Images'' \<mapsto> Directory),
               trace = [Makedirs ''Fetched_Images'']\<rparr>)"
  by (simp add: os_makedirs_def world_of_def emit_def)

section \<open>The filename resolver\<close>

text \<open>
  Claim C5. For every URL whose path (as \<^verbatim>\<open>urlparse\<close> gives it) has a last segment that
  is not empty and contains a dot, the resolved filename is that last segment, whatever
  the response and its headers are.
\<close>

theorem path_name_takes_priority:
  assumes "urlparse url = Inr parsed"
    and "basename (path parsed) \<noteq> []"
    and "CHR ''.'' \<in> set (basename (path parsed))"
  shows "get_filename_from_url url response = Inr (basename (path parsed))"
  using assms by (simp add: get_filename_from_url_def filename_candidate_def)

theorem path_name_takes_priority_witness:
  "get_filename_from_url ''http://a/b.png''
     (reply 200 [(''Content-Disposition'', ''attachment; filename=other.gif''),
                 (''Content-Type'', ''text/html'')] []) = Inr ''b.png''"
  using path_name_takes_priority [OF urlparse_dotted]
  by (simp add: basename_def last_segment_def)

section \<open>The orchestrator\<close>

text \<open>
  Claim C10. For every response without a \<^verbatim>\<open>Content-Type\<close> header (retrieved without an
  exception and with a status that \<^verbatim>\<open>raise_for_status\<close> lets pass), \<^verbatim>\<open>download_image\<close>
  takes the content type to be the empty string and returns the failure of the content-type
  gate, whose message shows the empty type between \<^verbatim>\<open>Content-Type: \<close> and the closing
  parenthesis. The world afterwards has the directory, the progress line and the request,
  and nothing else: no file was looked at, read or written.
\<close>

theorem missing_content_type_rejected:
  assumes "os_makedirs d w0 = (Inr (), w1)"
    and "urlparse url = Inr parsed"
    and "network url = Inr response"
    and "\<not> (400 \<le> status_code response \<and> status_code response < 600)"
    and "headers_get (headers response) ''Content-Type'' = None"
  shows "download_image network url d w0 =
           (Inr (not_image_message '''', False),
            w1\<lparr>trace := trace w1 @
               [Print (''Connecting to the community at '' @ netloc parsed @ ''...''), Get url]\<rparr>)"
  using assms
  by (simp add: download_image_def download_image_try_def http_get_def print_def emit_def
        raise_for_status_ok headers_get_default_def startswith_def)

theorem missing_content_type_rejected_witness:
  "download_image (serve (reply 200 [] ''B'')) ''http://a/b.png'' ''Fetched_Images'' (world_of []) =
     (Inr (not_image_message '''', False),
      \<lparr>files = [''Fetched_Images'' \<mapsto> Directory],
        trace = [Makedirs ''Fetched_Images'', Print ''Connecting to the community at a...'',
                 Get ''http://a/b.png'']\<rparr>)"
  using missing_content_type_rejected
          [of "''Fetched_Images''" "world_of []" _ "''http://a/b.png''" _
              "serve (reply 200 [] ''B'')" "reply 200 [] ''B''"]
  by (simp add: makedirs_fresh urlparse_dotted serve_def reply_def headers_get_def)

end
